theory Spec2Isabelle
  imports Main
begin

section \<open>JavaScript values used by the application\<close>

text \<open>
  The application of \<^verbatim>\<open>src/index.js\<close> keeps one store state with the three fields
  \<^verbatim>\<open>data\<close>, \<^verbatim>\<open>success\<close> and \<^verbatim>\<open>renderCount\<close>. A JavaScript value that may be
  \<^verbatim>\<open>undefined\<close> (a missing property, a missing argument) is an \<open>option\<close>: \<open>None\<close> is
  \<^verbatim>\<open>undefined\<close>.
\<close>

subsection \<open>Numbers\<close>

text \<open>
  A JavaScript number is an IEEE 754 double. \<^verbatim>\<open>renderCount\<close> only ever holds integers, so
  a number is represented by the integer it denotes; the integers that are doubles are those
  accepted by \<open>is_number\<close>. Doubles of magnitude below \<open>2 ^ 53\<close> are spaced by at most one,
  and the spacing doubles with every further power of two: \<open>ulp n\<close> is the spacing of the
  doubles around the magnitude \<open>n\<close>.
\<close>

type_synonym number = int

function ulp :: "nat \<Rightarrow> nat" where
  "ulp n = (if n < 2 ^ 53 then 1 else 2 * ulp (n div 2))"
  by pat_completeness auto
termination
  by (relation "measure id") auto

declare ulp.simps [simp del]

definition is_number :: "number \<Rightarrow> bool" where
  "is_number c = (ulp (nat \<bar>c\<bar>) dvd nat \<bar>c\<bar> \<and> \<bar>c\<bar> < 2 ^ 1024)"

text \<open>
  The result of an arithmetic operation is the exact result rounded to the nearest double,
  a tie going to the double whose significand is even.
\<close>

definition round_magnitude :: "nat \<Rightarrow> nat" where
  "round_magnitude n =
     (let u = ulp n; q = n div u; r = n mod u;
          q' = (if 2 * r < u \<or> (2 * r = u \<and> even q) then q else q + 1)
      in q' * u)"

definition roundTiesToEven :: "int \<Rightarrow> number" where
  "roundTiesToEven x = sgn x * int (round_magnitude (nat \<bar>x\<bar>))"

definition number_add :: "number \<Rightarrow> number \<Rightarrow> number" where
  "number_add a b = roundTiesToEven (a + b)"

text \<open>
  \<^verbatim>\<open>++state\<close> assigns \<^verbatim>\<open>state + 1\<close> to the local variable \<^verbatim>\<open>state\<close> and has the new value
  as its value; \<^verbatim>\<open>state++\<close> would have the old one. Both are given as the pair of the
  variable's new value and the value of the expression. The variable is the callee's own
  parameter: a number is passed by value, so the caller's number is never written.
\<close>

definition pre_increment :: "number \<Rightarrow> number \<times> number" where
  "pre_increment state = (let state' = number_add state 1 in (state', state'))"

subsection \<open>Actions and the state\<close>

text \<open>
  An action is an object with a \<^verbatim>\<open>type\<close> and, for \<^verbatim>\<open>CHANGE_DATA\<close>, a \<^verbatim>\<open>data\<close> payload;
  reading the \<^verbatim>\<open>data\<close> of an action that has none gives \<^verbatim>\<open>undefined\<close>.
\<close>

record action =
  type :: string
  data :: "string option"

text \<open>
  The state object. The \<^verbatim>\<open>initialState\<close> of the source has no \<^verbatim>\<open>data\<close> property, so
  every property may be \<^verbatim>\<open>undefined\<close>.
\<close>

record state =
  data :: "string option"
  success :: "bool option"
  renderCount :: "number option"

definition initialState :: state where
  "initialState = \<lparr>state.data = None, success = Some False, renderCount = Some 0\<rparr>"

section \<open>The reducers\<close>

text \<open>
  Each reducer has a default parameter, used when the argument is \<^verbatim>\<open>undefined\<close>, and a
  \<^verbatim>\<open>switch\<close> on \<^verbatim>\<open>action.type\<close> with the one case \<^verbatim>\<open>'CHANGE_DATA'\<close>.
\<close>

definition dataReducer :: "string option \<Rightarrow> action \<Rightarrow> string option" where
  "dataReducer arg action =
     (let state = (case arg of None \<Rightarrow> '''' | Some v \<Rightarrow> v)
      in if type action = ''CHANGE_DATA'' then action.data action else Some state)"

definition successReducer :: "bool option \<Rightarrow> action \<Rightarrow> bool option" where
  "successReducer arg action =
     (let state = (case arg of None \<Rightarrow> False | Some v \<Rightarrow> v)
      in if type action = ''CHANGE_DATA'' then Some True else Some state)"

definition countReducer :: "number option \<Rightarrow> action \<Rightarrow> number option" where
  "countReducer arg action =
     (let state = (case arg of None \<Rightarrow> 0 | Some v \<Rightarrow> v)
      in if type action = ''CHANGE_DATA'' then Some (snd (pre_increment state)) else Some state)"

text \<open>
  Modelled from the spec: \<^verbatim>\<open>combineReducers\<close> is imported from the redux package, which is
  not part of the sources. By the specification (4.2) the root reducer invokes, for every
  key, the field reducer with \<^verbatim>\<open>state[key]\<close> (with \<^verbatim>\<open>undefined\<close> when there is no state,
  so that the field reducer's own default applies) and the action, and assembles the
  results into a new record; it does no defaulting and has no other effect.
\<close>

definition field :: "(state \<Rightarrow> 'a option) \<Rightarrow> state option \<Rightarrow> 'a option" where
  "field key st = (case st of None \<Rightarrow> None | Some s \<Rightarrow> key s)"

definition combineReducers ::
  "(string option \<Rightarrow> action \<Rightarrow> string option) \<Rightarrow> (bool option \<Rightarrow> action \<Rightarrow> bool option) \<Rightarrow>
   (number option \<Rightarrow> action \<Rightarrow> number option) \<Rightarrow> state option \<Rightarrow> action \<Rightarrow> state" where
  "combineReducers dataR successR renderCountR st action =
     \<lparr>state.data = dataR (field state.data st) action,
      success = successR (field success st) action,
      renderCount = renderCountR (field renderCount st) action\<rparr>"

definition reduxApp :: "state option \<Rightarrow> action \<Rightarrow> state" where
  "reduxApp = combineReducers dataReducer successReducer countReducer"

text \<open>
  The combinator of the redux package does one thing that the specification leaves out: a
  field reducer must never return \<^verbatim>\<open>undefined\<close>, and when one does the root reducer raises
  an error that names the key, and returns no state. The keys are taken in the order of
  the object given to \<^verbatim>\<open>combineReducers\<close>, and the first \<^verbatim>\<open>undefined\<close> result raises. The
  field reducers have no effects, so the root reducer as the source really runs it is what
  \<open>reduxApp\<close> assembles, under that check.
\<close>

datatype error = ReducerReturnedUndefined string

definition rootReducer :: "state option \<Rightarrow> action \<Rightarrow> error + state" where
  "rootReducer st action =
     (let nextState = reduxApp st action
      in if state.data nextState = None then Inl (ReducerReturnedUndefined ''data'')
         else if success nextState = None then Inl (ReducerReturnedUndefined ''success'')
         else if renderCount nextState = None then Inl (ReducerReturnedUndefined ''renderCount'')
         else Inr nextState)"

section \<open>The store\<close>

text \<open>
  Modelled from the spec: \<^verbatim>\<open>createStore\<close> is imported from the redux package, which is not
  part of the sources. By the specification (4.1, 4.3, 8, 9) a store is constructed from
  the root reducer and an optional initial state, and its first state is the result of a
  probe dispatch of an action with an unknown type on that initial state; the probe action
  is the parameter \<open>probe\<close>. A store is given by its current state.
\<close>

definition createStore :: "(state option \<Rightarrow> action \<Rightarrow> state) \<Rightarrow> state option \<Rightarrow> action \<Rightarrow> state" where
  "createStore reducer preloadedState probe = reducer preloadedState probe"

text \<open>The source constructs its store from \<^verbatim>\<open>reduxApp\<close> and \<^verbatim>\<open>initialState\<close>.\<close>

definition configureStore :: "action \<Rightarrow> state" where
  "configureStore probe = createStore reduxApp (Some initialState) probe"

text \<open>
  Modelled from the spec: \<^verbatim>\<open>dispatch\<close> is the store's, from the redux package. By the
  specification (4.3) it replaces the current state by the root reducer's result on it and
  the action, and then notifies the subscribers, which do not change the state and do not
  appear here. \<open>dispatchAll\<close> dispatches a list of actions in order.
\<close>

definition dispatch :: "action \<Rightarrow> state \<Rightarrow> state" where
  "dispatch action currentState = reduxApp (Some currentState) action"

fun dispatchAll :: "action list \<Rightarrow> state \<Rightarrow> state" where
  "dispatchAll [] currentState = currentState"
| "dispatchAll (a # as) currentState = dispatchAll as (dispatch a currentState)"

section \<open>The components\<close>

text \<open>
  The properties of \<^verbatim>\<open>Presenter\<close>: those read from the state by \<^verbatim>\<open>mapStateToProps\<close>, and
  the callback made by \<^verbatim>\<open>mapDispatchToProps\<close>. A callback acts on the world \<open>'w\<close> that
  the \<^verbatim>\<open>dispatch\<close> function it is given acts on.
\<close>

record stateProps =
  data :: "string option"
  success :: "bool option"
  count :: "number option"

record 'w dispatchProps =
  callbackFunc :: "'w \<Rightarrow> 'w"

record 'w props = stateProps +
  callbackFunc :: "'w \<Rightarrow> 'w"

definition mapStateToProps :: "state \<Rightarrow> stateProps" where
  "mapStateToProps state =
     \<lparr>stateProps.data = state.data state, success = state.success state, count = renderCount state\<rparr>"

definition mapDispatchToProps :: "(action \<Rightarrow> 'w \<Rightarrow> 'w) \<Rightarrow> 'w dispatchProps" where
  "mapDispatchToProps dispatch' =
     \<lparr>dispatchProps.callbackFunc =
        (\<lambda>w. dispatch' \<lparr>type = ''CHANGE_DATA'', data = Some ''the Presenter changed me''\<rparr> w)\<rparr>"

text \<open>
  The tree that \<^verbatim>\<open>Presenter\<close> returns: a \<^verbatim>\<open>div\<close> with a link carrying the click handler,
  a rule, the message, a rule, and the count. A child that is \<^verbatim>\<open>undefined\<close> shows nothing.
  \<^verbatim>\<open>Presenter\<close> also writes its \<^verbatim>\<open>data\<close>, \<^verbatim>\<open>success\<close> and \<^verbatim>\<open>count\<close> to the console before
  it returns; the console is read by nothing and is left out.
\<close>

datatype 'w node =
    Div string "'w node list"
  | Anchor string "'w \<Rightarrow> 'w" string
  | Hr
  | SpanText "string option"
  | SpanNumber "number option"

definition truthy :: "bool option \<Rightarrow> bool" where
  "truthy b = (case b of None \<Rightarrow> False | Some v \<Rightarrow> v)"

definition message :: "'z stateProps_scheme \<Rightarrow> string option" where
  "message p =
     (if truthy (stateProps.success p) then stateProps.data p
      else Some ''We don't have data to show.'')"

definition Presenter :: "'w props \<Rightarrow> 'w node" where
  "Presenter p =
     Div ''presentational''
       [Anchor ''#'' (\<lambda>w. props.callbackFunc p w) ''clickable text'',
        Hr, SpanText (message p), Hr, SpanNumber (count p)]"

text \<open>
  Modelled from the spec: \<^verbatim>\<open>connect\<close> is imported from the react-redux package, which is
  not part of the sources. By the specification (4.4) the container renders the wrapped
  component with \<^verbatim>\<open>mapStateToProps(store.getState())\<close> merged with
  \<^verbatim>\<open>mapDispatchToProps(store.dispatch)\<close>. The store's \<^verbatim>\<open>dispatch\<close> and state are the
  last two parameters. The \<^verbatim>\<open>className\<close> that \<^verbatim>\<open>App\<close> gives the container is a property
  that \<^verbatim>\<open>Presenter\<close> does not read.
\<close>

definition connect ::
  "(state \<Rightarrow> stateProps) \<Rightarrow> ((action \<Rightarrow> 'w \<Rightarrow> 'w) \<Rightarrow> 'w dispatchProps) \<Rightarrow>
   ('w props \<Rightarrow> 'w node) \<Rightarrow>
   (action \<Rightarrow> 'w \<Rightarrow> 'w) \<Rightarrow> state \<Rightarrow> 'w node" where
  "connect mapState mapDispatch component storeDispatch storeState =
     component
       (stateProps.extend (mapState storeState)
          (props.fields (dispatchProps.callbackFunc (mapDispatch storeDispatch))))"

definition Container :: "(action \<Rightarrow> 'w \<Rightarrow> 'w) \<Rightarrow> state \<Rightarrow> 'w node" where
  "Container = connect mapStateToProps mapDispatchToProps Presenter"

text \<open>The click handlers of a tree, in document order; activating a link runs its handler.\<close>

fun handlers :: "'w node \<Rightarrow> ('w \<Rightarrow> 'w) list" where
  "handlers (Div className children) = concat (map handlers children)"
| "handlers (Anchor href onClick txt) = [onClick]"
| "handlers Hr = []"
| "handlers (SpanText t) = []"
| "handlers (SpanNumber n) = []"

text \<open>A \<^verbatim>\<open>dispatch\<close> that only records the actions it is given, in order.\<close>

definition recordDispatch :: "action \<Rightarrow> action list \<Rightarrow> action list" where
  "recordDispatch a log = log @ [a]"

section \<open>Arithmetic of numbers\<close>

lemma ulp_pos: "0 < ulp n"
  by (induction n rule: ulp.induct) (subst ulp.simps, simp)

lemma ulp_small: "n < 2 ^ 53 \<Longrightarrow> ulp n = 1"
  by (subst ulp.simps) simp

lemma ulp_Suc:
  "ulp (Suc n) = ulp n \<or> (ulp (Suc n) = 2 * ulp n \<and> Suc n = 2 ^ 53 * ulp n)"
proof (induction n rule: ulp.induct)
  case (1 n)
  show ?case
  proof (cases "Suc n < 2 ^ 53")
    case True
    then show ?thesis by (simp add: ulp_small)
  next
    case False
    note big = False
    show ?thesis
    proof (cases "n < 2 ^ 53")
      case True
      with big have eq: "Suc n = 2 ^ 53" by simp
      have "ulp (Suc n) = 2 * ulp (Suc n div 2)"
        using big by (subst ulp.simps) simp
      also have "Suc n div 2 = 2 ^ 52" using eq by simp
      also have "ulp (2 ^ 52) = 1" by (simp add: ulp_small)
      finally have "ulp (Suc n) = 2" by simp
      moreover have "ulp n = 1" using True by (simp add: ulp_small)
      ultimately show ?thesis using eq by simp
    next
      case False
      then have un: "ulp n = 2 * ulp (n div 2)" by (subst ulp.simps) simp
      have us: "ulp (Suc n) = 2 * ulp (Suc n div 2)"
        using big by (subst ulp.simps) simp
      show ?thesis
      proof (cases "even n")
        case True
        then have "Suc n div 2 = n div 2" by simp
        with un us show ?thesis by simp
      next
        case False
        then have h: "Suc n div 2 = Suc (n div 2)" by simp
        have s2: "Suc n = 2 * Suc (n div 2)" using False
          by (metis h even_Suc dvd_mult_div_cancel)
        from "1.IH" \<open>\<not> n < 2 ^ 53\<close>
        have "ulp (Suc (n div 2)) = ulp (n div 2) \<or>
              (ulp (Suc (n div 2)) = 2 * ulp (n div 2) \<and> Suc (n div 2) = 2 ^ 53 * ulp (n div 2))"
          by simp
        then show ?thesis using un us h s2 by auto
      qed
    qed
  qed
qed

lemma round_magnitude_cases:
  "round_magnitude n = (n div ulp n) * ulp n \<or> round_magnitude n = (n div ulp n + 1) * ulp n"
  by (simp add: round_magnitude_def Let_def)

lemma round_magnitude_dvd: "ulp n dvd n \<Longrightarrow> round_magnitude n = n"
  using ulp_pos [of n] by (auto simp add: round_magnitude_def Let_def)

lemma round_magnitude_Suc_ge:
  assumes "ulp m dvd m"
  shows "m \<le> round_magnitude (Suc m)"
proof -
  from ulp_Suc [of m] show ?thesis
  proof
    assume eq: "ulp (Suc m) = ulp m"
    have "m = (m div ulp m) * ulp m" using assms by simp
    also have "m div ulp m \<le> Suc m div ulp m" by (rule div_le_mono) simp
    finally have "m \<le> (Suc m div ulp (Suc m)) * ulp (Suc m)" using eq by simp
    with round_magnitude_cases [of "Suc m"] show ?thesis by auto
  next
    assume "ulp (Suc m) = 2 * ulp m \<and> Suc m = 2 ^ 53 * ulp m"
    then have u: "ulp (Suc m) = 2 * ulp m" and s: "Suc m = 2 ^ 53 * ulp m" by blast+
    have "(2::nat) * ulp m dvd 2 ^ 53 * ulp m" by (rule mult_dvd_mono) simp_all
    then have "ulp (Suc m) dvd Suc m" by (simp only: u flip: s)
    then show ?thesis by (simp add: round_magnitude_dvd)
  qed
qed

lemma round_magnitude_le_Suc:
  assumes "ulp (Suc m) dvd Suc m"
  shows "round_magnitude m \<le> Suc m"
proof -
  have d: "ulp m dvd Suc m"
    using ulp_Suc [of m] assms by auto
  then obtain k where k: "Suc m = ulp m * k" ..
  have "m < k * ulp m" using k by (simp add: mult.commute)
  then have "m div ulp m < k" by (simp add: less_mult_imp_div_less)
  then have "m div ulp m + 1 \<le> k" by simp
  then have "(m div ulp m + 1) * ulp m \<le> k * ulp m" by (rule mult_le_mono1)
  then have up: "(m div ulp m + 1) * ulp m \<le> Suc m" using k by (simp add: mult.commute)
  have "(m div ulp m) * ulp m \<le> m" by simp
  with up round_magnitude_cases [of m] show ?thesis by auto
qed

lemma number_add_one_ge:
  assumes "is_number c"
  shows "c \<le> number_add c 1"
proof -
  consider "0 \<le> c" | "c = -1" | "c < -1" by linarith
  then show ?thesis
  proof cases
    case 1
    then have n: "nat \<bar>c + 1\<bar> = Suc (nat \<bar>c\<bar>)" by simp
    have "ulp (nat \<bar>c\<bar>) dvd nat \<bar>c\<bar>" using assms by (simp add: is_number_def)
    then have "nat \<bar>c\<bar> \<le> round_magnitude (Suc (nat \<bar>c\<bar>))" by (rule round_magnitude_Suc_ge)
    then have "c \<le> int (round_magnitude (Suc (nat \<bar>c\<bar>)))" using 1 by simp
    moreover have "sgn (c + 1) = 1" using 1 by simp
    ultimately show ?thesis by (simp add: number_add_def roundTiesToEven_def n)
  next
    case 2
    then show ?thesis by (simp add: number_add_def roundTiesToEven_def)
  next
    case 3
    define m where "m = nat \<bar>c + 1\<bar>"
    have sm: "Suc m = nat \<bar>c\<bar>" using 3 by (simp add: m_def)
    have "ulp (Suc m) dvd Suc m" using assms by (simp add: is_number_def sm)
    then have "round_magnitude m \<le> Suc m" by (rule round_magnitude_le_Suc)
    then have "int (round_magnitude m) \<le> - c" using sm 3 by linarith
    moreover have "sgn (c + 1) = - 1" using 3 by simp
    ultimately show ?thesis by (simp add: number_add_def roundTiesToEven_def m_def [symmetric])
  qed
qed

lemma ulp_2_53: "ulp (2 ^ 53) = 2"
proof -
  have "ulp (2 ^ 53) = 2 * ulp (2 ^ 53 div 2)" by (subst ulp.simps) simp
  also have "(2::nat) ^ 53 div 2 = 2 ^ 52" by simp
  also have "ulp (2 ^ 52) = 1" by (simp add: ulp_small)
  finally show ?thesis by simp
qed

lemma round_magnitude_exact: "n \<le> 2 ^ 53 \<Longrightarrow> round_magnitude n = n"
proof (cases "n < 2 ^ 53")
  case True
  then show ?thesis by (simp add: round_magnitude_dvd ulp_small)
next
  case False
  assume "n \<le> 2 ^ 53"
  with False have n: "n = 2 ^ 53" by simp
  have "ulp n dvd n" unfolding n ulp_2_53 by simp
  then show ?thesis by (rule round_magnitude_dvd)
qed

lemma number_add_one_exact:
  assumes "- (2 ^ 53) \<le> c" and "c < 2 ^ 53"
  shows "number_add c 1 = c + 1"
proof -
  have "\<bar>c + 1\<bar> \<le> 2 ^ 53" using assms by linarith
  then have "nat \<bar>c + 1\<bar> \<le> 2 ^ 53" by (simp add: nat_le_iff)
  then have "round_magnitude (nat \<bar>c + 1\<bar>) = nat \<bar>c + 1\<bar>" by (rule round_magnitude_exact)
  then show ?thesis by (simp add: number_add_def roundTiesToEven_def mult_sgn_abs)
qed

text \<open>The sum of a number and one is a number again: incrementing never leaves the doubles.\<close>

lemma ulp_even: "\<not> n < 2 ^ 53 \<Longrightarrow> even (ulp n)"
  by (subst ulp.simps) simp

lemma ulp_upper: "n < 2 ^ 53 * ulp n"
proof (induction n rule: ulp.induct)
  case (1 n)
  show ?case
  proof (cases "n < 2 ^ 53")
    case True
    then show ?thesis by (simp add: ulp_small)
  next
    case False
    then have u: "ulp n = 2 * ulp (n div 2)" by (subst ulp.simps) simp
    from "1.IH" False have "n div 2 < 2 ^ 53 * ulp (n div 2)" by simp
    then have "2 * (n div 2) + 2 \<le> 2 * (2 ^ 53 * ulp (n div 2))" by linarith
    moreover have "n \<le> 2 * (n div 2) + 1" by presburger
    ultimately show ?thesis unfolding u by linarith
  qed
qed

lemma ulp_Suc_double:
  assumes d: "ulp m dvd m" and big: "\<not> m < 2 ^ 53"
  shows "ulp (Suc m) = ulp m"
proof -
  have "even (ulp m)" using big by (rule ulp_even)
  then have "even m" using d by (rule dvd_trans)
  then have odd: "odd (Suc m)" by simp
  from ulp_Suc [of m] show ?thesis
  proof
    assume "ulp (Suc m) = 2 * ulp m \<and> Suc m = 2 ^ 53 * ulp m"
    then have "Suc m = 2 * (2 ^ 52 * ulp m)" by simp
    then have "even (Suc m)" by (simp only: dvd_triv_left)
    with odd show ?thesis by simp
  qed
qed

lemma round_magnitude_after_double:
  assumes d: "ulp m dvd m" and big: "\<not> m < 2 ^ 53"
  shows "round_magnitude (Suc m) = m \<or> (ulp m = 2 \<and> round_magnitude (Suc m) = Suc (Suc m))"
proof -
  define u where "u = ulp m"
  have ev: "even u" unfolding u_def using big by (rule ulp_even)
  have pos: "0 < u" unfolding u_def by (rule ulp_pos)
  with ev have u2: "2 \<le> u" by (cases "u = 1") auto
  from d have dm: "u dvd m" by (simp add: u_def)
  have us: "ulp (Suc m) = u" unfolding u_def using d big by (rule ulp_Suc_double)
  have m0: "m mod u = 0" using dm by simp
  have r: "Suc m mod u = 1" using u2 m0 by (simp add: mod_Suc)
  have q: "Suc m div u = m div u" using r by (simp add: div_Suc)
  have qu: "(m div u) * u = m" using dm by simp
  have R: "round_magnitude (Suc m) =
      (if 2 * 1 < u \<or> (2 * 1 = u \<and> even (m div u)) then m div u else m div u + 1) * u"
    by (simp only: round_magnitude_def Let_def us r q)
  show ?thesis
  proof (cases "2 < u")
    case True
    then have "round_magnitude (Suc m) = m" by (simp add: R qu)
    then show ?thesis ..
  next
    case False
    with u2 have u_eq: "u = 2" by simp
    have "(m div u + 1) * u = Suc (Suc m)" using qu by (simp add: u_eq)
    then have "round_magnitude (Suc m) = m \<or> round_magnitude (Suc m) = Suc (Suc m)"
      using qu by (simp add: R)
    then show ?thesis using u_eq by (auto simp add: u_def)
  qed
qed

lemma round_magnitude_Suc_number:
  assumes d: "ulp m dvd m" and b: "m < 2 ^ 1024"
  shows "ulp (round_magnitude (Suc m)) dvd round_magnitude (Suc m)
         \<and> round_magnitude (Suc m) < 2 ^ 1024"
proof (cases "m < 2 ^ 53")
  case True
  then have le: "Suc m \<le> 2 ^ 53" by simp
  then have R: "round_magnitude (Suc m) = Suc m" by (rule round_magnitude_exact)
  have "ulp (Suc m) dvd Suc m"
  proof (cases "Suc m < 2 ^ 53")
    case True
    then show ?thesis by (simp add: ulp_small)
  next
    case False
    with le have "Suc m = 2 ^ 53" by simp
    moreover have "(2::nat) dvd 2 ^ 53" by simp
    then have "ulp (2 ^ 53) dvd (2::nat) ^ 53" by (simp only: ulp_2_53)
    ultimately show ?thesis by (simp only:)
  qed
  moreover have "(2::nat) ^ 53 < 2 ^ 1024" by simp
  with le have "Suc m < 2 ^ 1024" by linarith
  ultimately show ?thesis unfolding R by blast
next
  case False
  from round_magnitude_after_double [OF d False] show ?thesis
  proof
    assume "round_magnitude (Suc m) = m"
    with d b show ?thesis by simp
  next
    assume a: "ulp m = 2 \<and> round_magnitude (Suc m) = Suc (Suc m)"
    then have R: "round_magnitude (Suc m) = Suc (Suc m)" and u: "ulp m = 2" by simp_all
    have "even m" using d u by simp
    have "m < 2 ^ 53 * 2" using ulp_upper [of m] u by simp
    moreover have "(2::nat) ^ 53 * 2 + 2 < 2 ^ 1024" by simp
    ultimately have bound: "Suc (Suc m) < 2 ^ 1024" by linarith
    have us: "ulp (Suc m) = 2" using ulp_Suc_double [OF d False] u by simp
    have "ulp (Suc (Suc m)) dvd Suc (Suc m)"
    proof -
      from ulp_Suc [of "Suc m"] show ?thesis
      proof
        assume "ulp (Suc (Suc m)) = ulp (Suc m)"
        with us \<open>even m\<close> show ?thesis by simp
      next
        assume "ulp (Suc (Suc m)) = 2 * ulp (Suc m) \<and> Suc (Suc m) = 2 ^ 53 * ulp (Suc m)"
        then have e: "ulp (Suc (Suc m)) = 2 * ulp (Suc m)"
          and s: "Suc (Suc m) = 2 ^ 53 * ulp (Suc m)" by blast+
        have E: "ulp (Suc (Suc m)) = 2 * 2" by (simp only: e us)
        have S: "Suc (Suc m) = 2 ^ 53 * 2" by (simp only: s us)
        have "(2::nat) * 2 dvd 2 ^ 53 * 2" by simp
        then show ?thesis by (subst E, subst S)
      qed
    qed
    with bound show ?thesis unfolding R by blast
  qed
qed

lemma round_magnitude_before_double:
  assumes d: "ulp (Suc n) dvd Suc n" and big: "\<not> n < 2 ^ 53"
  shows "round_magnitude n = Suc n \<or> (ulp n = 2 \<and> Suc (round_magnitude n) = n)"
proof -
  define u where "u = ulp n"
  have ev: "even u" unfolding u_def using big by (rule ulp_even)
  have pos: "0 < u" unfolding u_def by (rule ulp_pos)
  with ev have u2: "2 \<le> u" by (cases "u = 1") auto
  have ds: "u dvd Suc n"
  proof -
    from ulp_Suc [of n] show ?thesis
    proof
      assume "ulp (Suc n) = ulp n"
      with d show ?thesis by (simp add: u_def)
    next
      assume "ulp (Suc n) = 2 * ulp n \<and> Suc n = 2 ^ 53 * ulp n"
      then have "Suc n = 2 ^ 53 * u" by (simp add: u_def)
      then show ?thesis by (metis dvd_triv_right)
    qed
  qed
  then obtain k where k: "Suc n = u * k" ..
  then have kpos: "0 < k" by (cases k) auto
  then obtain j where j: "k = Suc j" by (cases k) auto
  have n_eq: "n = j * u + (u - 1)" using k j u2 by (simp add: algebra_simps)
  have "(j * u + (u - 1)) mod u = (u - 1) mod u" by (rule mod_mult_self3)
  then have "n mod u = (u - 1) mod u" by (simp only: n_eq [symmetric])
  then have r: "n mod u = u - 1" using u2 by simp
  from pos have "u \<noteq> 0" by simp
  then have "(j * u + (u - 1)) div u = j + (u - 1) div u" by (rule div_mult_self3)
  then have "n div u = j + (u - 1) div u" by (simp only: n_eq [symmetric])
  then have q: "n div u = j" using u2 by simp
  have up: "(j + 1) * u = Suc n" using k j by (simp add: algebra_simps)
  have R: "round_magnitude n =
      (if 2 * (u - 1) < u \<or> (2 * (u - 1) = u \<and> even j) then j else j + 1) * u"
    by (simp only: round_magnitude_def Let_def u_def [symmetric] r q)
  show ?thesis
  proof (cases "2 < u")
    case True
    then have "\<not> 2 * (u - 1) < u" and "2 * (u - 1) \<noteq> u" by linarith+
    then have "round_magnitude n = Suc n" using up by (simp add: R)
    then show ?thesis ..
  next
    case False
    with u2 have u_eq: "u = 2" by simp
    have "j * u + 1 = n" using n_eq by (simp add: u_eq)
    then have "round_magnitude n = Suc n \<or> Suc (round_magnitude n) = n"
      using up by (auto simp add: R u_eq)
    then show ?thesis using u_eq by (auto simp add: u_def)
  qed
qed

lemma round_magnitude_pred_number:
  assumes d: "ulp (Suc n) dvd Suc n" and b: "Suc n < 2 ^ 1024"
  shows "ulp (round_magnitude n) dvd round_magnitude n \<and> round_magnitude n < 2 ^ 1024"
proof (cases "n < 2 ^ 53")
  case True
  then have "round_magnitude n = n" by (simp add: round_magnitude_exact)
  with True b show ?thesis by (simp add: ulp_small)
next
  case False
  from round_magnitude_before_double [OF d False] show ?thesis
  proof
    assume "round_magnitude n = Suc n"
    with d b show ?thesis by simp
  next
    assume a: "ulp n = 2 \<and> Suc (round_magnitude n) = n"
    define k where "k = round_magnitude n"
    from a have u: "ulp n = 2" and n: "n = Suc k" by (simp_all add: k_def)
    have "\<not> Suc n < 2 ^ 53" using False by simp
    then have "even (ulp (Suc n))" by (rule ulp_even)
    then have "even (Suc n)" using d by (rule dvd_trans)
    then have ek: "even k" by (simp add: n)
    have "ulp k dvd k"
    proof -
      from ulp_Suc [of k] show ?thesis
      proof
        assume "ulp (Suc k) = ulp k"
        with u ek show ?thesis by (simp add: n)
      next
        assume "ulp (Suc k) = 2 * ulp k \<and> Suc k = 2 ^ 53 * ulp k"
        then have "ulp (Suc k) = 2 * ulp k" ..
        moreover have "ulp (Suc k) = 2" using u by (simp only: n)
        ultimately have "ulp k = 1" by simp
        then show ?thesis by simp
      qed
    qed
    moreover have "k < 2 ^ 1024" using b n by simp
    ultimately show ?thesis by (simp add: k_def)
  qed
qed

lemma number_add_one_number:
  assumes "is_number c"
  shows "is_number (number_add c 1)"
proof -
  consider "0 \<le> c" | "c = -1" | "c < -1" by linarith
  then show ?thesis
  proof cases
    case 1
    define m where "m = nat \<bar>c\<bar>"
    have n: "nat \<bar>c + 1\<bar> = Suc m" using 1 by (simp add: m_def)
    have "ulp m dvd m" and "m < 2 ^ 1024"
      using assms by (simp_all add: is_number_def m_def nat_less_iff)
    then have "ulp (round_magnitude (Suc m)) dvd round_magnitude (Suc m)
         \<and> round_magnitude (Suc m) < 2 ^ 1024"
      by (rule round_magnitude_Suc_number)
    moreover have "sgn (c + 1) = 1" using 1 by simp
    ultimately show ?thesis
      by (simp add: is_number_def number_add_def roundTiesToEven_def n)
  next
    case 2
    then show ?thesis
      by (simp add: is_number_def number_add_def roundTiesToEven_def)
  next
    case 3
    define n where "n = nat \<bar>c + 1\<bar>"
    have sn: "Suc n = nat \<bar>c\<bar>" using 3 by (simp add: n_def)
    have "ulp (Suc n) dvd Suc n" and "Suc n < 2 ^ 1024"
      using assms by (simp_all add: is_number_def sn nat_less_iff)
    then have "ulp (round_magnitude n) dvd round_magnitude n \<and> round_magnitude n < 2 ^ 1024"
      by (rule round_magnitude_pred_number)
    moreover have "sgn (c + 1) = - 1" using 3 by simp
    ultimately show ?thesis
      by (simp add: is_number_def number_add_def roundTiesToEven_def n_def [symmetric])
  qed
qed

section \<open>Properties of the reducers and the store\<close>

lemmas ulp_numeral = ulp.simps [of "numeral k"] for k

subsection \<open>The root reducer on the two kinds of action\<close>

lemma reduxApp_other:
  "type a \<noteq> ''CHANGE_DATA'' \<Longrightarrow>
   reduxApp st a =
     \<lparr>state.data = Some (case field state.data st of None \<Rightarrow> '''' | Some v \<Rightarrow> v),
      success = Some (case field state.success st of None \<Rightarrow> False | Some v \<Rightarrow> v),
      renderCount = Some (case field renderCount st of None \<Rightarrow> 0 | Some v \<Rightarrow> v)\<rparr>"
  by (simp add: reduxApp_def combineReducers_def dataReducer_def successReducer_def
      countReducer_def)

lemma reduxApp_change:
  "type a = ''CHANGE_DATA'' \<Longrightarrow>
   reduxApp st a =
     \<lparr>state.data = action.data a, success = Some True,
      renderCount = Some (number_add (case field renderCount st of None \<Rightarrow> 0 | Some v \<Rightarrow> v) 1)\<rparr>"
  by (simp add: reduxApp_def combineReducers_def dataReducer_def successReducer_def
      countReducer_def pre_increment_def Let_def)

text \<open>
  C1, as the code has it: for a prior state with any \<^verbatim>\<open>data\<close> and \<^verbatim>\<open>success\<close> and any
  \<^verbatim>\<open>renderCount\<close> \<open>C\<close>, and for every string \<open>X\<close>, the root reducer applied to the action
  \<^verbatim>\<open>{type: "CHANGE_DATA", data: X}\<close> returns exactly the state with \<^verbatim>\<open>data\<close> \<open>X\<close>,
  \<^verbatim>\<open>success\<close> true and \<^verbatim>\<open>renderCount\<close> the JavaScript sum of \<open>C\<close> and one, which is
  \<open>C + 1\<close> for \<open>- 2 ^ 53 \<le> C < 2 ^ 53\<close>. Outside that range the sum is rounded to a double:
  from \<open>2 ^ 53\<close> the count stays \<open>2 ^ 53\<close>.
\<close>

theorem reduxApp_CHANGE_DATA:
  "reduxApp (Some \<lparr>state.data = D, success = S, renderCount = Some C\<rparr>)
     \<lparr>type = ''CHANGE_DATA'', data = Some X\<rparr>
   = \<lparr>state.data = Some X, success = Some True, renderCount = Some (number_add C 1)\<rparr>
   \<and> (- (2 ^ 53) \<le> C \<and> C < 2 ^ 53 \<longrightarrow>
        reduxApp (Some \<lparr>state.data = D, success = S, renderCount = Some C\<rparr>)
          \<lparr>type = ''CHANGE_DATA'', data = Some X\<rparr>
        = \<lparr>state.data = Some X, success = Some True, renderCount = Some (C + 1)\<rparr>)"
  by (simp add: reduxApp_change field_def number_add_one_exact)

theorem reduxApp_CHANGE_DATA_witness:
  "reduxApp (Some \<lparr>state.data = Some '''', success = Some False, renderCount = Some 0\<rparr>)
     \<lparr>type = ''CHANGE_DATA'', data = Some ''hello''\<rparr>
   = \<lparr>state.data = Some ''hello'', success = Some True, renderCount = Some 1\<rparr>"
  using reduxApp_CHANGE_DATA [of "Some ''''" "Some False" 0 "''hello''"]
  by (simp add: number_add_one_exact)

theorem reduxApp_CHANGE_DATA_counterexample:
  "reduxApp (Some \<lparr>state.data = Some '''', success = Some False, renderCount = Some (2 ^ 53)\<rparr>)
     \<lparr>type = ''CHANGE_DATA'', data = Some ''hello''\<rparr>
   \<noteq> \<lparr>state.data = Some ''hello'', success = Some True, renderCount = Some (2 ^ 53 + 1)\<rparr>"
  by (simp add: reduxApp_change field_def number_add_def roundTiesToEven_def round_magnitude_def
      ulp_numeral)

text \<open>
  C2, as the code has it: for every state whose three fields are all defined and every
  action whose type is not \<^verbatim>\<open>CHANGE_DATA\<close>, the root reducer returns the state with every
  field unchanged, each field reducer being the identity on its default branch. A field
  that is \<^verbatim>\<open>undefined\<close>, as \<^verbatim>\<open>data\<close> is in the \<^verbatim>\<open>initialState\<close> of the source, comes back as
  its reducer's default, so the result differs from such a state.
\<close>

theorem reduxApp_unrecognized_identity:
  assumes "type a \<noteq> ''CHANGE_DATA''"
    and "state.data s \<noteq> None" and "state.success s \<noteq> None" and "renderCount s \<noteq> None"
  shows "reduxApp (Some s) a = s
         \<and> dataReducer (state.data s) a = state.data s
         \<and> successReducer (state.success s) a = state.success s
         \<and> countReducer (renderCount s) a = renderCount s"
  using assms
  by (auto simp add: reduxApp_other field_def dataReducer_def successReducer_def countReducer_def)

theorem reduxApp_unrecognized_identity_witness:
  "reduxApp (Some \<lparr>state.data = Some ''hello'', success = Some True, renderCount = Some 3\<rparr>)
     \<lparr>type = ''@@redux/INIT'', data = None\<rparr>
   = \<lparr>state.data = Some ''hello'', success = Some True, renderCount = Some 3\<rparr>"
  using reduxApp_unrecognized_identity
    [of "\<lparr>type = ''@@redux/INIT'', data = None\<rparr>"
        "\<lparr>state.data = Some ''hello'', success = Some True, renderCount = Some 3\<rparr>"]
  by simp

theorem reduxApp_unrecognized_identity_counterexample:
  "reduxApp (Some initialState) \<lparr>type = ''@@redux/INIT'', data = None\<rparr> \<noteq> initialState"
  by (simp add: reduxApp_other field_def initialState_def)

text \<open>
  C3: a store constructed from the root reducer with no initial state has the state with
  \<^verbatim>\<open>data\<close> the empty string, \<^verbatim>\<open>success\<close> false and \<^verbatim>\<open>renderCount\<close> zero: the root reducer
  applied to an \<^verbatim>\<open>undefined\<close> state and an initialization action of an unknown type
  returns the record of what each field reducer returns for \<^verbatim>\<open>undefined\<close>, which is that
  reducer's own default.
\<close>

theorem createStore_no_initial_state:
  assumes "type probe \<noteq> ''CHANGE_DATA''"
  shows "createStore reduxApp None probe
           = \<lparr>state.data = Some '''', success = Some False, renderCount = Some 0\<rparr>
         \<and> reduxApp None probe
           = \<lparr>state.data = dataReducer None probe, success = successReducer None probe,
              renderCount = countReducer None probe\<rparr>
         \<and> dataReducer None probe = Some ''''
         \<and> successReducer None probe = Some False
         \<and> countReducer None probe = Some 0"
  using assms
  by (simp add: createStore_def reduxApp_def combineReducers_def field_def
      dataReducer_def successReducer_def countReducer_def)

theorem createStore_no_initial_state_witness:
  "createStore reduxApp None \<lparr>type = ''@@redux/INIT'', data = None\<rparr>
     = \<lparr>state.data = Some '''', success = Some False, renderCount = Some 0\<rparr>"
  using createStore_no_initial_state [of "\<lparr>type = ''@@redux/INIT'', data = None\<rparr>"]
  by simp

text \<open>
  C4: for every state whose \<^verbatim>\<open>success\<close> is true and every action, the state returned by
  the root reducer has \<^verbatim>\<open>success\<close> true, and so has the state after any sequence of
  dispatched actions.
\<close>

theorem success_never_reverts:
  assumes "state.success s = Some True"
  shows "state.success (reduxApp (Some s) a) = Some True
         \<and> state.success (dispatchAll as s) = Some True
         \<and> successReducer (Some True) a = Some True"
proof -
  have step: "state.success (reduxApp (Some t) b) = Some True" if "state.success t = Some True" for t b
    using that
    by (simp add: reduxApp_def combineReducers_def field_def successReducer_def)
  have "state.success (dispatchAll as t) = Some True" if "state.success t = Some True" for t
    using that
  proof (induction as arbitrary: t)
    case Nil
    then show ?case by simp
  next
    case (Cons b bs)
    then show ?case by (simp add: dispatch_def step)
  qed
  with assms step show ?thesis by (simp add: successReducer_def)
qed

theorem success_never_reverts_witness:
  "state.success (dispatchAll
      [\<lparr>type = ''OTHER'', data = None\<rparr>, \<lparr>type = ''CHANGE_DATA'', data = Some ''x''\<rparr>,
       \<lparr>type = ''RESET'', data = Some ''y''\<rparr>]
      \<lparr>state.data = Some ''hello'', success = Some True, renderCount = Some 1\<rparr>) = Some True"
  using success_never_reverts
    [of "\<lparr>state.data = Some ''hello'', success = Some True, renderCount = Some 1\<rparr>"
        "\<lparr>type = ''OTHER'', data = None\<rparr>"
        "[\<lparr>type = ''OTHER'', data = None\<rparr>, \<lparr>type = ''CHANGE_DATA'', data = Some ''x''\<rparr>,
          \<lparr>type = ''RESET'', data = Some ''y''\<rparr>]"]
  by simp

text \<open>
  C5: for every state, also a missing or partial one, and every action whose type is not
  \<^verbatim>\<open>CHANGE_DATA\<close>, applying the root reducer twice gives the same state as applying it
  once; and there is a state and a \<^verbatim>\<open>CHANGE_DATA\<close> action for which applying it twice gives
  a state different from applying it once.
\<close>

theorem reduxApp_idempotence:
  "(type a \<noteq> ''CHANGE_DATA'' \<longrightarrow>
      reduxApp (Some (reduxApp st a)) a = reduxApp st a
      \<and> dispatch a (dispatch a s) = dispatch a s)
   \<and> (\<exists>t b. type b = ''CHANGE_DATA''
          \<and> reduxApp (Some (reduxApp (Some t) b)) b \<noteq> reduxApp (Some t) b)"
proof -
  have "reduxApp (Some (reduxApp st a)) a = reduxApp st a" if "type a \<noteq> ''CHANGE_DATA''" for st
    using that by (simp add: reduxApp_other field_def)
  moreover
  let ?b = "\<lparr>type = ''CHANGE_DATA'', data = Some ''hello''\<rparr>"
  let ?t = "\<lparr>state.data = Some '''', success = Some False, renderCount = Some 0\<rparr>"
  have "reduxApp (Some (reduxApp (Some ?t) ?b)) ?b \<noteq> reduxApp (Some ?t) ?b"
    by (simp add: reduxApp_change field_def number_add_one_exact)
  then have "\<exists>t b. type b = ''CHANGE_DATA''
      \<and> reduxApp (Some (reduxApp (Some t) b)) b \<noteq> reduxApp (Some t) b"
    by (intro exI [of _ ?t] exI [of _ ?b]) simp
  ultimately show ?thesis by (simp add: dispatch_def)
qed

theorem reduxApp_idempotence_witness:
  "reduxApp (Some (reduxApp (Some initialState) \<lparr>type = ''@@redux/INIT'', data = None\<rparr>))
     \<lparr>type = ''@@redux/INIT'', data = None\<rparr>
   = reduxApp (Some initialState) \<lparr>type = ''@@redux/INIT'', data = None\<rparr>"
  using reduxApp_idempotence
    [of "\<lparr>type = ''@@redux/INIT'', data = None\<rparr>" "Some initialState"]
  by simp

text \<open>
  C6, as the code has it: on \<^verbatim>\<open>CHANGE_DATA\<close>, \<^verbatim>\<open>countReducer\<close> returns the JavaScript sum
  \<^verbatim>\<open>state + 1\<close> as a new value (its argument is a value and is not changed), which is
  \<open>c + 1\<close> for every integer \<open>c\<close> with \<open>- 2 ^ 53 \<le> c < 2 ^ 53\<close>; for every other action type
  it returns \<open>c\<close> unchanged. So \<^verbatim>\<open>renderCount\<close> never decreases, whatever the action and
  whatever number it holds, and within that range it increases by exactly one for each
  \<^verbatim>\<open>CHANGE_DATA\<close>. At \<open>2 ^ 53\<close> the sum is rounded to a double and the count stays.
\<close>

theorem countReducer_CHANGE_DATA:
  "(type a = ''CHANGE_DATA'' \<longrightarrow>
      countReducer (Some c) a = Some (number_add c 1)
      \<and> (- (2 ^ 53) \<le> c \<and> c < 2 ^ 53 \<longrightarrow> countReducer (Some c) a = Some (c + 1)))
   \<and> (type a \<noteq> ''CHANGE_DATA'' \<longrightarrow> countReducer (Some c) a = Some c)
   \<and> (is_number c \<longrightarrow>
        (\<exists>c'. countReducer (Some c) a = Some c' \<and> c \<le> c' \<and> is_number c'))"
proof (cases "type a = ''CHANGE_DATA''")
  case True
  then have "countReducer (Some c) a = Some (number_add c 1)"
    by (simp add: countReducer_def pre_increment_def Let_def)
  with True show ?thesis
    by (simp add: number_add_one_exact number_add_one_ge number_add_one_number)
next
  case False
  then show ?thesis by (simp add: countReducer_def)
qed

theorem countReducer_CHANGE_DATA_witness:
  "is_number 41
   \<and> countReducer (Some 41) \<lparr>type = ''CHANGE_DATA'', data = Some ''hello''\<rparr> = Some 42
   \<and> is_number 42
   \<and> countReducer (Some 41) \<lparr>type = ''OTHER'', data = None\<rparr> = Some 41"
proof -
  have n: "is_number 41" by (simp add: is_number_def ulp_small)
  show ?thesis
    using n countReducer_CHANGE_DATA [of "\<lparr>type = ''CHANGE_DATA'', data = Some ''hello''\<rparr>" 41]
      countReducer_CHANGE_DATA [of "\<lparr>type = ''OTHER'', data = None\<rparr>" 41]
    by (auto simp add: number_add_one_exact)
qed

theorem countReducer_CHANGE_DATA_counterexample:
  "countReducer (Some (2 ^ 53)) \<lparr>type = ''CHANGE_DATA'', data = Some ''hello''\<rparr>
   \<noteq> Some (2 ^ 53 + 1)"
  by (simp add: countReducer_def pre_increment_def number_add_def roundTiesToEven_def
      round_magnitude_def ulp_numeral)

text \<open>
  C7: the message that \<^verbatim>\<open>Presenter\<close> shows is \<^verbatim>\<open>data\<close> when \<^verbatim>\<open>success\<close> is true and the
  string \<^verbatim>\<open>We don't have data to show.\<close> when \<^verbatim>\<open>success\<close> is false; so the container
  rendered on the state after a \<^verbatim>\<open>CHANGE_DATA\<close> dispatch shows the dispatched \<^verbatim>\<open>data\<close>.
\<close>

theorem Presenter_message:
  "(stateProps.success p = Some True \<longrightarrow> message p = stateProps.data p)
   \<and> (stateProps.success p = Some False \<longrightarrow> message p = Some ''We don't have data to show.'')
   \<and> Presenter p =
       Div ''presentational''
         [Anchor ''#'' (props.callbackFunc p) ''clickable text'',
          Hr, SpanText (message p), Hr, SpanNumber (count p)]
   \<and> (type a = ''CHANGE_DATA'' \<longrightarrow>
        Container d (dispatch a s) =
          Div ''presentational''
            [Anchor ''#'' (dispatchProps.callbackFunc (mapDispatchToProps d)) ''clickable text'',
             Hr, SpanText (action.data a), Hr, SpanNumber (renderCount (dispatch a s))])"
  by (simp add: message_def truthy_def Presenter_def Container_def connect_def
      mapStateToProps_def dispatch_def reduxApp_change stateProps.defs props.defs)

theorem Presenter_message_witness:
  "message \<lparr>stateProps.data = Some ''hello'', success = Some True, count = Some 1,
             callbackFunc = (\<lambda>w. w :: action list)\<rparr> = Some ''hello''
   \<and> message \<lparr>stateProps.data = Some '''', success = Some False, count = Some 0,
               callbackFunc = (\<lambda>w. w :: action list)\<rparr> = Some ''We don't have data to show.''
   \<and> Container recordDispatch
        (dispatch \<lparr>type = ''CHANGE_DATA'', data = Some ''hello''\<rparr>
           \<lparr>state.data = Some '''', success = Some False, renderCount = Some 0\<rparr>) =
        Div ''presentational''
          [Anchor ''#'' (dispatchProps.callbackFunc (mapDispatchToProps recordDispatch))
             ''clickable text'',
           Hr, SpanText (Some ''hello''), Hr, SpanNumber (Some 1)]"
  using
    Presenter_message
      [of "\<lparr>stateProps.data = Some ''hello'', success = Some True, count = Some 1,
             callbackFunc = (\<lambda>w. w :: action list)\<rparr>"
          "\<lparr>type = ''CHANGE_DATA'', data = Some ''hello''\<rparr>" recordDispatch
          "\<lparr>state.data = Some '''', success = Some False, renderCount = Some 0\<rparr>"]
    Presenter_message
      [of "\<lparr>stateProps.data = Some '''', success = Some False, count = Some 0,
             callbackFunc = (\<lambda>w. w :: action list)\<rparr>"
          "\<lparr>type = ''CHANGE_DATA'', data = Some ''hello''\<rparr>" recordDispatch
          "\<lparr>state.data = Some '''', success = Some False, renderCount = Some 0\<rparr>"]
  by (simp add: dispatch_def reduxApp_change field_def number_add_one_exact)

text \<open>
  C8: the callback made by \<^verbatim>\<open>mapDispatchToProps\<close> calls the \<^verbatim>\<open>dispatch\<close> it was given
  exactly once, with the action of type \<^verbatim>\<open>CHANGE_DATA\<close> and data
  \<^verbatim>\<open>the Presenter changed me\<close>: a recording \<^verbatim>\<open>dispatch\<close> has that one action more in its
  log. The rendered container has one clickable element, and activating it does the same.
\<close>

theorem callbackFunc_dispatches_once:
  "dispatchProps.callbackFunc (mapDispatchToProps d) w =
     d \<lparr>type = ''CHANGE_DATA'', data = Some ''the Presenter changed me''\<rparr> w
   \<and> dispatchProps.callbackFunc (mapDispatchToProps recordDispatch) log =
       log @ [\<lparr>type = ''CHANGE_DATA'', data = Some ''the Presenter changed me''\<rparr>]
   \<and> map (\<lambda>onClick. onClick w) (handlers (Container d s)) =
       [d \<lparr>type = ''CHANGE_DATA'', data = Some ''the Presenter changed me''\<rparr> w]"
  by (simp add: mapDispatchToProps_def recordDispatch_def Container_def connect_def
      Presenter_def stateProps.defs props.defs)

theorem callbackFunc_dispatches_once_witness:
  "map (\<lambda>onClick. onClick [])
     (handlers (Container recordDispatch
        \<lparr>state.data = Some '''', success = Some False, renderCount = Some 0\<rparr>)) =
   [[\<lparr>type = ''CHANGE_DATA'', data = Some ''the Presenter changed me''\<rparr>]]"
  using callbackFunc_dispatches_once
    [of recordDispatch "[]" "[]"
        "\<lparr>state.data = Some '''', success = Some False, renderCount = Some 0\<rparr>"]
  by (simp add: recordDispatch_def)

text \<open>
  C9: constructing the store with an initial state that omits fields yields a state, with
  every omitted field at its reducer's default: for the \<^verbatim>\<open>initialState\<close> of the source,
  which has no \<^verbatim>\<open>data\<close>, the state after construction has \<^verbatim>\<open>data\<close> the empty string.
\<close>

theorem configureStore_omitted_data:
  assumes "type probe \<noteq> ''CHANGE_DATA''"
  shows "configureStore probe
           = \<lparr>state.data = Some '''', success = Some False, renderCount = Some 0\<rparr>
         \<and> state.data initialState = None
         \<and> createStore reduxApp (Some s) probe =
             \<lparr>state.data = Some (case state.data s of None \<Rightarrow> '''' | Some v \<Rightarrow> v),
              success = Some (case state.success s of None \<Rightarrow> False | Some v \<Rightarrow> v),
              renderCount = Some (case renderCount s of None \<Rightarrow> 0 | Some v \<Rightarrow> v)\<rparr>"
  using assms
  by (simp add: configureStore_def createStore_def reduxApp_other field_def initialState_def)

theorem configureStore_omitted_data_witness:
  "configureStore \<lparr>type = ''@@redux/INIT'', data = None\<rparr>
     = \<lparr>state.data = Some '''', success = Some False, renderCount = Some 0\<rparr>"
  using configureStore_omitted_data [of "\<lparr>type = ''@@redux/INIT'', data = None\<rparr>"]
  by simp

text \<open>
  C10, as the code has it: for a \<^verbatim>\<open>CHANGE_DATA\<close> action without a \<^verbatim>\<open>data\<close> payload,
  \<^verbatim>\<open>dataReducer\<close> validates nothing and returns the absent payload, \<^verbatim>\<open>undefined\<close>;
  \<^verbatim>\<open>successReducer\<close> returns true, and \<^verbatim>\<open>countReducer\<close> returns the JavaScript sum of the
  count \<open>c\<close> and one, which is \<open>c + 1\<close> for \<open>- 2 ^ 53 \<le> c < 2 ^ 53\<close>. The root reducer,
  however, fails, from every prior state: the combinator rejects the \<^verbatim>\<open>undefined\<close> result
  for the key \<^verbatim>\<open>data\<close> with an error and returns no state. For every other action, one
  of another type or a \<^verbatim>\<open>CHANGE_DATA\<close> with a payload, it does not fail and returns the
  assembled state.
\<close>

theorem rootReducer_CHANGE_DATA_no_payload:
  "rootReducer st \<lparr>type = ''CHANGE_DATA'', data = None\<rparr> = Inl (ReducerReturnedUndefined ''data'')
   \<and> dataReducer d \<lparr>type = ''CHANGE_DATA'', data = None\<rparr> = None
   \<and> successReducer b \<lparr>type = ''CHANGE_DATA'', data = None\<rparr> = Some True
   \<and> countReducer (Some c) \<lparr>type = ''CHANGE_DATA'', data = None\<rparr> = Some (number_add c 1)
   \<and> (- (2 ^ 53) \<le> c \<and> c < 2 ^ 53 \<longrightarrow>
        countReducer (Some c) \<lparr>type = ''CHANGE_DATA'', data = None\<rparr> = Some (c + 1))
   \<and> (type a \<noteq> ''CHANGE_DATA'' \<or> action.data a \<noteq> None \<longrightarrow>
        rootReducer st a = Inr (reduxApp st a))"
proof -
  have returns: "rootReducer st a = Inr (reduxApp st a)"
    if "type a \<noteq> ''CHANGE_DATA'' \<or> action.data a \<noteq> None"
  proof (cases "type a = ''CHANGE_DATA''")
    case True
    with that have "action.data a \<noteq> None" by simp
    with True show ?thesis by (auto simp add: rootReducer_def reduxApp_change Let_def)
  next
    case False
    then show ?thesis by (simp add: rootReducer_def reduxApp_other Let_def)
  qed
  have "rootReducer st \<lparr>type = ''CHANGE_DATA'', data = None\<rparr>
      = Inl (ReducerReturnedUndefined ''data'')"
    by (simp add: rootReducer_def reduxApp_change Let_def)
  moreover have "dataReducer d \<lparr>type = ''CHANGE_DATA'', data = None\<rparr> = None"
    by (simp add: dataReducer_def)
  moreover have "successReducer b \<lparr>type = ''CHANGE_DATA'', data = None\<rparr> = Some True"
    by (simp add: successReducer_def)
  moreover have "countReducer (Some c) \<lparr>type = ''CHANGE_DATA'', data = None\<rparr>
      = Some (number_add c 1)"
    by (simp add: countReducer_def pre_increment_def Let_def)
  ultimately show ?thesis using returns by (simp add: number_add_one_exact)
qed

theorem rootReducer_CHANGE_DATA_no_payload_witness:
  "rootReducer (Some \<lparr>state.data = Some '''', success = Some False, renderCount = Some 0\<rparr>)
     \<lparr>type = ''CHANGE_DATA'', data = None\<rparr> = Inl (ReducerReturnedUndefined ''data'')
   \<and> dataReducer (Some '''') \<lparr>type = ''CHANGE_DATA'', data = None\<rparr> = None
   \<and> successReducer (Some False) \<lparr>type = ''CHANGE_DATA'', data = None\<rparr> = Some True
   \<and> countReducer (Some 0) \<lparr>type = ''CHANGE_DATA'', data = None\<rparr> = Some 1"
  using rootReducer_CHANGE_DATA_no_payload
    [of "Some \<lparr>state.data = Some '''', success = Some False, renderCount = Some 0\<rparr>"
        "Some ''''" "Some False" 0 "\<lparr>type = ''CHANGE_DATA'', data = Some ''hello''\<rparr>"]
  by (simp add: number_add_one_exact)

theorem rootReducer_CHANGE_DATA_no_payload_counterexample:
  "rootReducer
     (Some \<lparr>state.data = Some ''hello'', success = Some False, renderCount = Some 2\<rparr>)
     \<lparr>type = ''CHANGE_DATA'', data = None\<rparr>
   \<noteq> Inr \<lparr>state.data = None, success = Some True, renderCount = Some 3\<rparr>"
  by (simp add: rootReducer_def reduxApp_change Let_def)

end
